theory Spec2Isabelle
  imports Main
begin

section \<open>The prediction form (web/src/app/page.tsx)\<close>

subsection \<open>JavaScript numbers as the form produces them\<close>

text \<open>
  The four spinners hold the result of
  \<^verbatim>\<open>Math.max(0, Math.min(hi, parseInt(e.target.value || "0")))\<close>.
  \<^verbatim>\<open>parseInt\<close> returns an integer or NaN, and the bounds are small integers, so a
  number is modelled as NaN or a mathematical integer. Rounding of a huge integer to a
  double is monotone and the bounds are exact doubles, so the clamped value is the same
  with or without rounding; \<^verbatim>\<open>-0\<close> is identified with \<^verbatim>\<open>0\<close>.
\<close>

datatype number = NaN | Num int

text \<open>\<^verbatim>\<open>Math.min\<close> and \<^verbatim>\<open>Math.max\<close> return NaN as soon as one argument is NaN.\<close>

fun Math_min :: "number \<Rightarrow> number \<Rightarrow> number" where
  "Math_min (Num x) (Num y) = Num (min x y)"
| "Math_min _ _ = NaN"

fun Math_max :: "number \<Rightarrow> number \<Rightarrow> number" where
  "Math_max (Num x) (Num y) = Num (max x y)"
| "Math_max _ _ = NaN"

text \<open>
  \<^verbatim>\<open>parseInt(string)\<close> without a radix: skip leading white space, read an optional
  sign, read an optional \<^verbatim>\<open>0x\<close>/\<^verbatim>\<open>0X\<close> prefix (radix 16, else radix 10), take the
  longest prefix of digits of that radix; no digit at all gives NaN. Strings are byte
  strings here, so only the ASCII white space characters are skipped.
\<close>

definition StrWhiteSpaceChar :: "char \<Rightarrow> bool" where
  "StrWhiteSpaceChar c \<longleftrightarrow> c \<in> set [CHR 0x09, CHR 0x0A, CHR 0x0B, CHR 0x0C, CHR 0x0D, CHR 0x20]"

definition digit_value :: "char \<Rightarrow> nat option" where
  "digit_value c =
     (let n = (of_char c :: nat) in
      if 48 \<le> n \<and> n \<le> 57 then Some (n - 48)
      else if 97 \<le> n \<and> n \<le> 122 then Some (n - 87)
      else if 65 \<le> n \<and> n \<le> 90 then Some (n - 55)
      else None)"

definition radix_digit :: "nat \<Rightarrow> char \<Rightarrow> bool" where
  "radix_digit R c = (case digit_value c of None \<Rightarrow> False | Some d \<Rightarrow> d < R)"

definition math_int :: "nat \<Rightarrow> string \<Rightarrow> nat" where
  "math_int R Z = foldl (\<lambda>a c. a * R + (case digit_value c of None \<Rightarrow> 0 | Some d \<Rightarrow> d)) 0 Z"

definition parseInt :: "string \<Rightarrow> number" where
  "parseInt inputString =
     (let S = dropWhile StrWhiteSpaceChar inputString;
          sign = (if S \<noteq> [] \<and> hd S = CHR ''-'' then - 1 else (1::int));
          S = (if S \<noteq> [] \<and> (hd S = CHR ''+'' \<or> hd S = CHR ''-'') then tl S else S);
          hex = (take 2 S = ''0x'' \<or> take 2 S = ''0X'');
          R = (if hex then 16 else 10);
          S = (if hex then drop 2 S else S);
          Z = takeWhile (radix_digit R) S
      in if Z = [] then NaN else Num (sign * int (math_int R Z)))"

subsection \<open>Form state, change handlers and the payload\<close>

text \<open>The \<^verbatim>\<open>useState\<close> hooks of the form fields, with their initial values.\<close>

record form =
  rainTomorrow :: bool
  rainToday :: bool
  rainfall :: number
  humidity3pm :: number
  cloud3pm :: number
  sunshine :: number

definition initial_form :: form where
  "initial_form = \<lparr>rainTomorrow = False, rainToday = False, rainfall = Num 0,
     humidity3pm = Num 0, cloud3pm = Num 0, sunshine = Num 0\<rparr>"

text \<open>\<^verbatim>\<open>e.target.value || "0"\<close>: the empty string is falsy.\<close>

definition value_or_0 :: "string \<Rightarrow> string" where
  "value_or_0 v = (if v = [] then ''0'' else v)"

text \<open>
  A change event of the form: the field and \<^verbatim>\<open>e.target.value\<close> (or
  \<^verbatim>\<open>e.target.checked\<close>). The rain-tomorrow checkbox is kept as an event although the
  JSX that renders it is commented out.
\<close>

datatype change =
    RainTomorrowChange bool
  | RainTodayChange bool
  | RainfallChange string
  | Humidity3pmChange string
  | Cloud3pmChange string
  | SunshineChange string

fun onChange :: "form \<Rightarrow> change \<Rightarrow> form" where
  "onChange s (RainTomorrowChange b) = s\<lparr>rainTomorrow := b\<rparr>"
| "onChange s (RainTodayChange b) = s\<lparr>rainToday := b\<rparr>"
| "onChange s (RainfallChange v) =
     s\<lparr>rainfall := Math_max (Num 0) (Math_min (Num 371) (parseInt (value_or_0 v)))\<rparr>"
| "onChange s (Humidity3pmChange v) =
     s\<lparr>humidity3pm := Math_max (Num 0) (Math_min (Num 45) (parseInt (value_or_0 v)))\<rparr>"
| "onChange s (Cloud3pmChange v) =
     s\<lparr>cloud3pm := Math_max (Num 0) (Math_min (Num 8) (parseInt (value_or_0 v)))\<rparr>"
| "onChange s (SunshineChange v) =
     s\<lparr>sunshine := Math_max (Num 0) (Math_min (Num 17) (parseInt (value_or_0 v)))\<rparr>"

text \<open>The object that \<^verbatim>\<open>handleSubmit\<close> serialises and posts to \<^verbatim>\<open>/api/predict\<close>.\<close>

record payload =
  RainTomorrow :: int
  Rainfall :: number
  Humidity3pm :: number
  RainToday :: int
  Cloud3pm :: number
  Sunshine :: number

definition handleSubmit_payload :: "form \<Rightarrow> payload" where
  "handleSubmit_payload s =
     \<lparr>RainTomorrow = (if rainTomorrow s then 0 else 0),
      Rainfall = rainfall s,
      Humidity3pm = humidity3pm s,
      RainToday = (if rainToday s then 1 else 0),
      Cloud3pm = cloud3pm s,
      Sunshine = sunshine s\<rparr>"

text \<open>A session: the change events of the user in order, then the submission.\<close>

definition submit_after :: "change list \<Rightarrow> payload" where
  "submit_after evs = handleSubmit_payload (foldl onChange initial_form evs)"

text \<open>A number lies in a declared range when it is a number between the bounds.\<close>

fun within :: "int \<Rightarrow> int \<Rightarrow> number \<Rightarrow> bool" where
  "within lo hi (Num x) = (lo \<le> x \<and> x \<le> hi)"
| "within lo hi NaN = False"

section \<open>The deployment script (deploy.sh)\<close>

subsection \<open>The world outside the script\<close>

text \<open>
  Everything the script reads from outside: the optional region override, its own name
  (\<^verbatim>\<open>$0\<close>), the exit status and standard output of each external command it starts
  (by argument vector), and the exit status of each redirection into a file of the
  build directory (by directory and file name).
\<close>

record env =
  CLOUD_RUN_REGION :: "string option"
  script_name :: string
  command :: "string list \<Rightarrow> nat \<times> string"
  redirect :: "string \<Rightarrow> string \<Rightarrow> nat"

text \<open>What a run does that can be seen from outside, in order.\<close>

datatype event =
    Run "string list"
  | Echo string
  | WriteFile string string string

text \<open>
  The shell's own state: the events so far, the directory made by \<^verbatim>\<open>mktemp -d\<close> as
  long as it exists on disk, the variable \<^verbatim>\<open>NGINX_BUILD_DIR\<close>, whether
  \<^verbatim>\<open>trap cleanup EXIT\<close> has run, and the interrupt still to come: \<open>Some n\<close> when a signal
  arrives after \<open>n\<close> more commands, \<open>None\<close> when none arrives or once it has been
  delivered. A run sees at most one signal.
\<close>

record shell =
  trace :: "event list"
  workspace :: "string option"
  NGINX_BUILD_DIR :: string
  trap_EXIT :: bool
  interrupt :: "nat option"

text \<open>A command either lets the script go on (with a value) or ends it with an exit code.\<close>

datatype 'a status = Next 'a | Exit nat

type_synonym 'a sh = "shell \<Rightarrow> 'a status \<times> shell"

definition andthen :: "'a sh \<Rightarrow> ('a \<Rightarrow> 'b sh) \<Rightarrow> 'b sh" where
  "andthen m f s = (case m s of (Next a, s') \<Rightarrow> f a s' | (Exit c, s') \<Rightarrow> (Exit c, s'))"

fun seq :: "unit sh list \<Rightarrow> unit sh" where
  "seq [] = (\<lambda>s. (Next (), s))"
| "seq (c # cs) = andthen c (\<lambda>_. seq cs)"

definition exit_sh :: "nat \<Rightarrow> 'a sh" where
  "exit_sh c s = (Exit c, s)"

text \<open>
  Before each command the pending interrupt is looked at: a signal that is due is
  delivered and ends the script with code 130 (128 + SIGINT); otherwise one command
  fewer remains before it.
\<close>

definition next_command :: "unit sh" where
  "next_command s =
     (case interrupt s of
        None \<Rightarrow> (Next (), s)
      | Some 0 \<Rightarrow> (Exit 130, s\<lparr>interrupt := None\<rparr>)
      | Some (Suc n) \<Rightarrow> (Next (), s\<lparr>interrupt := Some n\<rparr>))"

definition emit :: "event \<Rightarrow> shell \<Rightarrow> shell" where
  "emit ev s = s\<lparr>trace := trace s @ [ev]\<rparr>"

definition echo :: "string \<Rightarrow> unit sh" where
  "echo t = andthen next_command (\<lambda>_ s. (Next (), emit (Echo t) s))"

text \<open>An external command under \<^verbatim>\<open>set -e\<close>: a non-zero status ends the script with it.\<close>

definition simple_command :: "env \<Rightarrow> string list \<Rightarrow> unit sh" where
  "simple_command e argv =
     andthen next_command (\<lambda>_ s.
       (if fst (command e argv) = 0 then Next () else Exit (fst (command e argv)),
        emit (Run argv) s))"

text \<open>Command substitution removes the trailing newlines of the output.\<close>

definition strip_newlines :: "string \<Rightarrow> string" where
  "strip_newlines out = rev (dropWhile (\<lambda>c. c = CHR 0x0A) (rev out))"

text \<open>\<^verbatim>\<open>VAR="$(argv)"\<close> under \<^verbatim>\<open>set -e\<close>: the assignment has the status of the command.\<close>

definition command_subst :: "env \<Rightarrow> string list \<Rightarrow> string sh" where
  "command_subst e argv =
     andthen next_command (\<lambda>_ s.
       (if fst (command e argv) = 0 then Next (strip_newlines (snd (command e argv)))
        else Exit (fst (command e argv)),
        emit (Run argv) s))"

text \<open>\<^verbatim>\<open>cat > "dir/name" <<EOF\<close> under \<^verbatim>\<open>set -e\<close>.\<close>

definition cat_heredoc :: "env \<Rightarrow> string \<Rightarrow> string \<Rightarrow> string \<Rightarrow> unit sh" where
  "cat_heredoc e dir name content =
     andthen next_command (\<lambda>_ s.
       (if redirect e dir name = 0 then Next () else Exit (redirect e dir name),
        emit (WriteFile dir name content) s))"

definition unlines :: "string list \<Rightarrow> string" where
  "unlines ls = concat (map (\<lambda>l. l @ [CHR 0x0A]) ls)"

subsection \<open>Configuration and helper functions\<close>

definition REGION :: "env \<Rightarrow> string" where
  "REGION e =
     (case CLOUD_RUN_REGION e of
        None \<Rightarrow> ''us-central1''
      | Some r \<Rightarrow> if r = [] then ''us-central1'' else r)"

definition gcloud_config_get_value_project :: "string list" where
  "gcloud_config_get_value_project = [''gcloud'', ''config'', ''get-value'', ''project'']"

text \<open>
  \<^verbatim>\<open>PROJECT_ID="$(gcloud config get-value project 2>/dev/null || echo "")"\<close>: when
  gcloud fails, \<^verbatim>\<open>echo ""\<close> adds a newline and the substitution succeeds.
\<close>

definition project_of :: "env \<Rightarrow> string" where
  "project_of e =
     (case command e gcloud_config_get_value_project of
        (st, out) \<Rightarrow> strip_newlines (if st = 0 then out else out @ [CHR 0x0A]))"

definition resolve_PROJECT_ID :: "env \<Rightarrow> string sh" where
  "resolve_PROJECT_ID e =
     andthen next_command (\<lambda>_ s.
       (Next (project_of e), emit (Run gcloud_config_get_value_project) s))"

definition IMAGE_API :: "string \<Rightarrow> string" where
  "IMAGE_API PROJECT_ID = ''gcr.io/'' @ PROJECT_ID @ ''/api''"

definition IMAGE_WEB :: "string \<Rightarrow> string" where
  "IMAGE_WEB PROJECT_ID = ''gcr.io/'' @ PROJECT_ID @ ''/web''"

definition IMAGE_NGINX :: "string \<Rightarrow> string" where
  "IMAGE_NGINX PROJECT_ID = ''gcr.io/'' @ PROJECT_ID @ ''/nginx''"

text \<open>
  \<^verbatim>\<open>NGINX_BUILD_DIR="$(mktemp -d)"\<close>: a \<^verbatim>\<open>mktemp -d\<close> that succeeds has made the
  directory it prints.
\<close>

definition mktemp_d :: "env \<Rightarrow> string sh" where
  "mktemp_d e =
     andthen (command_subst e [''mktemp'', ''-d'']) (\<lambda>d s.
       (Next d, s\<lparr>NGINX_BUILD_DIR := d, workspace := Some d\<rparr>))"

text \<open>
  \<^verbatim>\<open>cleanup\<close>: \<^verbatim>\<open>rm -rf "${NGINX_BUILD_DIR}"\<close>, started by the EXIT trap. The directory is
  gone when \<^verbatim>\<open>rm\<close> runs to its end and succeeds. An \<^verbatim>\<open>rm\<close> that fails, or that the
  signal kills because it arrives while the trap runs, is taken to leave the directory
  in place.
\<close>

definition cleanup :: "env \<Rightarrow> shell \<Rightarrow> shell" where
  "cleanup e s =
     (emit (Run [''rm'', ''-rf'', NGINX_BUILD_DIR s]) s)
       \<lparr>workspace :=
          (if interrupt s \<noteq> Some 0
              \<and> fst (command e [''rm'', ''-rf'', NGINX_BUILD_DIR s]) = 0
              \<and> workspace s = Some (NGINX_BUILD_DIR s)
           then None else workspace s)\<rparr>"

definition trap_cleanup_EXIT :: "unit sh" where
  "trap_cleanup_EXIT = andthen next_command (\<lambda>_ s. (Next (), s\<lparr>trap_EXIT := True\<rparr>))"

definition usage_text :: "env \<Rightarrow> string list" where
  "usage_text e =
     [''Usage: '' @ script_name e @ '' {local|deploy}'',
      ''  local   - run docker-compose up locally'',
      ''  deploy  - build, push, and deploy to Cloud Run'']"

definition usage :: "env \<Rightarrow> unit sh" where
  "usage e = seq (map echo (usage_text e) @ [exit_sh 1])"

subsection \<open>Main logic\<close>

definition local_mode :: "env \<Rightarrow> unit sh" where
  "local_mode e =
     seq [echo ([CHR 0xF0, CHR 0x9F, CHR 0x91, CHR 0x89]
                @ '' Running in local mode with docker-compose...''),
          simple_command e [''docker-compose'', ''up''],
          exit_sh 0]"

definition gcloud_run_deploy :: "string \<Rightarrow> string \<Rightarrow> string \<Rightarrow> string list" where
  "gcloud_run_deploy name img region =
     [''gcloud'', ''run'', ''deploy'', name, ''--image'', img, ''--region'', region,
      ''--platform'', ''managed'', ''--allow-unauthenticated'', ''--quiet'']"

definition gcloud_run_services_describe :: "string \<Rightarrow> string \<Rightarrow> string list" where
  "gcloud_run_services_describe name region =
     [''gcloud'', ''run'', ''services'', ''describe'', name, ''--platform'', ''managed'',
      ''--region'', region, ''--format'', ''value(status.url)'']"

definition check_mark :: string where
  "check_mark = [CHR 0xE2, CHR 0x9C, CHR 0x94]"

text \<open>Step 1: build and push the API service, deploy it, retrieve its URL.\<close>

definition step1_api :: "env \<Rightarrow> string \<Rightarrow> string \<Rightarrow> string sh" where
  "step1_api e PROJECT_ID region =
     andthen (seq
       [echo ''>>> Building API image...'',
        simple_command e [''docker'', ''build'', ''-t'', IMAGE_API PROJECT_ID, ''./api''],
        echo ''>>> Pushing API image to Container Registry...'',
        simple_command e [''docker'', ''push'', IMAGE_API PROJECT_ID],
        echo ''>>> Deploying API to Cloud Run...'',
        simple_command e (gcloud_run_deploy ''api'' (IMAGE_API PROJECT_ID) region)]) (\<lambda>_.
     andthen (command_subst e (gcloud_run_services_describe ''api'' region)) (\<lambda>API_URL.
     if API_URL = [] then
       andthen (echo ''Error: could not fetch API service URL.'') (\<lambda>_. exit_sh 1)
     else
       andthen (seq [echo (''    '' @ check_mark @ '' API deployed at: '' @ API_URL), echo ''''])
         (\<lambda>_ s. (Next API_URL, s))))"

text \<open>Step 2: the same for the Web service.\<close>

definition step2_web :: "env \<Rightarrow> string \<Rightarrow> string \<Rightarrow> string sh" where
  "step2_web e PROJECT_ID region =
     andthen (seq
       [echo ''>>> Building Web image...'',
        simple_command e [''docker'', ''build'', ''-t'', IMAGE_WEB PROJECT_ID, ''./web''],
        echo ''>>> Pushing Web image to Container Registry...'',
        simple_command e [''docker'', ''push'', IMAGE_WEB PROJECT_ID],
        echo ''>>> Deploying Web to Cloud Run...'',
        simple_command e (gcloud_run_deploy ''web'' (IMAGE_WEB PROJECT_ID) region)]) (\<lambda>_.
     andthen (command_subst e (gcloud_run_services_describe ''web'' region)) (\<lambda>WEB_URL.
     if WEB_URL = [] then
       andthen (echo ''Error: could not fetch Web service URL.'') (\<lambda>_. exit_sh 1)
     else
       andthen (seq [echo (''    '' @ check_mark @ '' Web deployed at: '' @ WEB_URL), echo ''''])
         (\<lambda>_ s. (Next WEB_URL, s))))"

text \<open>Step 3: the here-document written to \<^verbatim>\<open>default.conf\<close>, line by line.\<close>

definition default_conf :: "string \<Rightarrow> string \<Rightarrow> string" where
  "default_conf API_URL WEB_URL = unlines
     [''server {'',
      ''    listen 8080;'',
      '''',
      ''    # Proxy any request to /api/ to the Cloud Run API service'',
      ''    location /api/ {'',
      ''        proxy_pass '' @ API_URL @ '';'',
      ''        proxy_set_header Host $host;'',
      ''        proxy_set_header X-Real-IP $remote_addr;'',
      ''        proxy_set_header X-Forwarded-For $proxy_add_x_forwarded_for;'',
      ''    }'',
      '''',
      ''    # Proxy all other requests to the Cloud Run Web service'',
      ''    location / {'',
      ''        proxy_pass '' @ WEB_URL @ '';'',
      ''        proxy_set_header Host $host;'',
      ''        proxy_set_header X-Real-IP $remote_addr;'',
      ''        proxy_set_header X-Forwarded-For $proxy_add_x_forwarded_for;'',
      ''    }'',
      ''}'']"

definition step3_default_conf :: "env \<Rightarrow> string \<Rightarrow> string \<Rightarrow> string \<Rightarrow> unit sh" where
  "step3_default_conf e dir API_URL WEB_URL =
     seq [echo ''>>> Generating nginx default.conf for Cloud Run...'',
          cat_heredoc e dir ''default.conf'' (default_conf API_URL WEB_URL)]"

text \<open>Step 4: the Dockerfile of the nginx image.\<close>

definition nginx_Dockerfile :: string where
  "nginx_Dockerfile = unlines
     [''# Use the same nginx base image as in your docker-compose'',
      ''FROM nginx:1.28.0-alpine-slim'',
      '''',
      ''# Copy our generated default.conf into the container'',
      ''COPY default.conf /etc/nginx/conf.d/default.conf'']"

definition step4_Dockerfile :: "env \<Rightarrow> string \<Rightarrow> unit sh" where
  "step4_Dockerfile e dir =
     seq [echo (''>>> Creating Dockerfile for nginx in '' @ dir @ ''...''),
          cat_heredoc e dir ''Dockerfile'' nginx_Dockerfile]"

text \<open>Step 5: build and push the nginx image.\<close>

definition step5_nginx_image :: "env \<Rightarrow> string \<Rightarrow> string \<Rightarrow> unit sh" where
  "step5_nginx_image e PROJECT_ID dir =
     seq [echo ''>>> Building nginx image...'',
          simple_command e [''docker'', ''build'', ''-t'', IMAGE_NGINX PROJECT_ID, dir],
          echo ''>>> Pushing nginx image to Container Registry...'',
          simple_command e [''docker'', ''push'', IMAGE_NGINX PROJECT_ID],
          echo '''']"

text \<open>Step 6: deploy nginx and retrieve its URL.\<close>

definition step6_nginx :: "env \<Rightarrow> string \<Rightarrow> string \<Rightarrow> string sh" where
  "step6_nginx e PROJECT_ID region =
     andthen (seq
       [echo ''>>> Deploying nginx to Cloud Run...'',
        simple_command e (gcloud_run_deploy ''nginx'' (IMAGE_NGINX PROJECT_ID) region)]) (\<lambda>_.
     andthen (command_subst e (gcloud_run_services_describe ''nginx'' region)) (\<lambda>NGINX_URL.
     if NGINX_URL = [] then
       andthen (echo ''Error: could not fetch nginx service URL.'') (\<lambda>_. exit_sh 1)
     else
       andthen (seq [echo (''    '' @ check_mark @ '' Nginx deployed at: '' @ NGINX_URL), echo ''''])
         (\<lambda>_ s. (Next NGINX_URL, s))))"

text \<open>Step 7: the summary.\<close>

definition step7_summary :: "string \<Rightarrow> string \<Rightarrow> string \<Rightarrow> unit sh" where
  "step7_summary NGINX_URL API_URL WEB_URL =
     seq [echo ([CHR 0xE2, CHR 0x9C, CHR 0x85] @ '' Deployment complete!''),
          echo ''Your application is now available at:'',
          echo '''',
          echo (''    '' @ [CHR 0xF0, CHR 0x9F, CHR 0x94, CHR 0x97] @ ''  '' @ NGINX_URL),
          echo '''',
          echo (''Requests to /api/ will be forwarded to '' @ API_URL),
          echo (''All other requests will be forwarded to '' @ WEB_URL),
          echo '''',
          exit_sh 0]"

definition deploy_mode :: "env \<Rightarrow> string \<Rightarrow> string \<Rightarrow> string \<Rightarrow> unit sh" where
  "deploy_mode e PROJECT_ID region dir =
     andthen (seq
       [echo ([CHR 0xF0, CHR 0x9F, CHR 0x91, CHR 0x89] @ '' Starting Cloud Run deployment...''),
        echo (''    Project: '' @ PROJECT_ID),
        echo (''    Region:  '' @ region),
        echo '''']) (\<lambda>_.
     andthen (step1_api e PROJECT_ID region) (\<lambda>API_URL.
     andthen (step2_web e PROJECT_ID region) (\<lambda>WEB_URL.
     andthen (seq
       [step3_default_conf e dir API_URL WEB_URL,
        step4_Dockerfile e dir,
        step5_nginx_image e PROJECT_ID dir]) (\<lambda>_.
     andthen (step6_nginx e PROJECT_ID region) (\<lambda>NGINX_URL.
     step7_summary NGINX_URL API_URL WEB_URL)))))"

text \<open>The dispatch on the arguments: argument count, then \<^verbatim>\<open>MODE="$1"\<close>.\<close>

definition main_logic :: "env \<Rightarrow> string list \<Rightarrow> string \<Rightarrow> string \<Rightarrow> unit sh" where
  "main_logic e args PROJECT_ID dir =
     (if length args \<noteq> 1 then usage e
      else if hd args = ''local'' then local_mode e
      else if hd args = ''deploy'' then deploy_mode e PROJECT_ID (REGION e) dir
      else usage e)"

text \<open>The script from its first line to the command that ends it.\<close>

definition deploy_sh :: "env \<Rightarrow> string list \<Rightarrow> unit sh" where
  "deploy_sh e args =
     andthen (resolve_PROJECT_ID e) (\<lambda>PROJECT_ID.
     if PROJECT_ID = [] then
       andthen
         (echo ''Error: No GCP project set. Run 'gcloud config set project YOUR_PROJECT_ID', then retry.'')
         (\<lambda>_. exit_sh 1)
     else
       andthen (mktemp_d e) (\<lambda>dir.
       andthen trap_cleanup_EXIT (\<lambda>_.
       main_logic e args PROJECT_ID dir)))"

definition start :: "nat option \<Rightarrow> shell" where
  "start k = \<lparr>trace = [], workspace = None, NGINX_BUILD_DIR = [], trap_EXIT = False,
     interrupt = k\<rparr>"

text \<open>
  On the way out the shell runs the EXIT trap when it is set, whatever ended the script;
  a script that runs off its end leaves with the status of its last command.
\<close>

definition exit_code :: "'a status \<Rightarrow> nat" where
  "exit_code r = (case r of Exit c \<Rightarrow> c | Next _ \<Rightarrow> 0)"

definition at_exit :: "env \<Rightarrow> shell \<Rightarrow> shell" where
  "at_exit e s = (if trap_EXIT s then cleanup e s else s)"

text \<open>
  A run of the script with the signal arriving after \<open>k\<close> commands (\<open>None\<close>: no signal):
  the exit code and the state the shell leaves behind.
\<close>

definition run_interruptible :: "env \<Rightarrow> string list \<Rightarrow> nat option \<Rightarrow> nat \<times> shell" where
  "run_interruptible e args k =
     (case deploy_sh e args (start k) of (r, s) \<Rightarrow> (exit_code r, at_exit e s))"

definition run :: "env \<Rightarrow> string list \<Rightarrow> nat \<times> shell" where
  "run e args = run_interruptible e args None"

definition printed :: "event list \<Rightarrow> string list" where
  "printed tr = concat (map (\<lambda>ev. case ev of Echo t \<Rightarrow> [t] | _ \<Rightarrow> []) tr)"

definition synthesized :: "event list \<Rightarrow> string list" where
  "synthesized tr =
     concat (map (\<lambda>ev. case ev of
        WriteFile dir name content \<Rightarrow> if name = ''default.conf'' then [content] else []
      | _ \<Rightarrow> []) tr)"

definition service_url :: "env \<Rightarrow> string \<Rightarrow> string" where
  "service_url e name =
     strip_newlines (snd (command e (gcloud_run_services_describe name (REGION e))))"

subsection \<open>Invariants of scripts\<close>

text \<open>
  \<open>valid P m R E\<close>: from a state in \<open>P\<close> the command \<open>m\<close> ends in a state in \<open>P\<close>; when it
  lets the script go on its value is in \<open>R\<close>, when it ends the script the exit code is
  in \<open>E\<close>.
\<close>

definition valid :: "(shell \<Rightarrow> bool) \<Rightarrow> 'a sh \<Rightarrow> ('a \<Rightarrow> bool) \<Rightarrow> (nat \<Rightarrow> bool) \<Rightarrow> bool" where
  "valid P m R E \<longleftrightarrow>
     (\<forall>s. P s \<longrightarrow> (case m s of (Next a, s') \<Rightarrow> P s' \<and> R a | (Exit c, s') \<Rightarrow> P s' \<and> E c))"

definition accepts :: "(shell \<Rightarrow> bool) \<Rightarrow> event \<Rightarrow> bool" where
  "accepts P ev \<longleftrightarrow> (\<forall>s. P s \<longrightarrow> P (emit ev s))"

text \<open>
  A framed invariant survives the countdown of the interrupt and every event other
  than a write of \<^verbatim>\<open>default.conf\<close>.
\<close>

definition framed :: "(shell \<Rightarrow> bool) \<Rightarrow> bool" where
  "framed P \<longleftrightarrow>
     (\<forall>s. P s \<longrightarrow>
        (\<forall>n. P (s\<lparr>interrupt := n\<rparr>)) \<and> (\<forall>argv. P (emit (Run argv) s)) \<and>
        (\<forall>t. P (emit (Echo t) s)) \<and>
        (\<forall>d n c. n \<noteq> ''default.conf'' \<longrightarrow> P (emit (WriteFile d n c) s)))"

definition nonzero_exits :: "(nat \<Rightarrow> bool) \<Rightarrow> bool" where
  "nonzero_exits E \<longleftrightarrow> (\<forall>c. c \<noteq> 0 \<longrightarrow> E c)"

text \<open>An invariant of the trace alone.\<close>

definition on_trace :: "(event list \<Rightarrow> bool) \<Rightarrow> shell \<Rightarrow> bool" where
  "on_trace T s = T (trace s)"

text \<open>
  Once the trap is set, \<^verbatim>\<open>NGINX_BUILD_DIR\<close> is the directory \<open>d\<close> and the workspace is gone
  or is \<open>d\<close>.
\<close>

definition trap_guards :: "string \<Rightarrow> shell \<Rightarrow> bool" where
  "trap_guards d s \<longleftrightarrow>
     trap_EXIT s \<and> NGINX_BUILD_DIR s = d \<and> (workspace s = None \<or> workspace s = Some d)"

text \<open>
  The directory \<^verbatim>\<open>mktemp -d\<close> names, and whether a run with the events \<open>tr\<close> has
  created it: \<^verbatim>\<open>mktemp -d\<close> was run and succeeded.
\<close>

definition build_dir :: "env \<Rightarrow> string" where
  "build_dir e = strip_newlines (snd (command e [''mktemp'', ''-d'']))"

definition workspace_created :: "env \<Rightarrow> event list \<Rightarrow> bool" where
  "workspace_created e tr \<longleftrightarrow>
     Run [''mktemp'', ''-d''] \<in> set tr \<and> fst (command e [''mktemp'', ''-d'']) = 0"

subsection \<open>Reading a configuration back\<close>


text \<open>
  The route sequence of a document is read back the way nginx reads a configuration
  file, which is free-form. White space (space, tab, CR, LF) separates words; \<^verbatim>\<open>;\<close> and
  \<^verbatim>\<open>{\<close> end a word and a directive; \<^verbatim>\<open>}\<close> at the start of a token closes a block;
  \<^verbatim>\<open>#\<close> at the start of a token opens a comment that runs to the end of the line; a word
  that starts with a quote runs to the matching quote and must be followed by white
  space, \<^verbatim>\<open>;\<close> or \<^verbatim>\<open>{\<close>; a backslash takes the next character as it is; \<^verbatim>\<open>${\<close> does
  not end a word. The end of the text inside a word is an error.
\<close>

datatype token = Word string | Semi | Open | Close

text \<open>
  Where the reader is: between tokens, in a comment, in an unquoted word, in a double
  or single quoted word (each with the flag "the last character was \<^verbatim>\<open>$\<close>" and the
  characters so far), or just behind a closing quote.
\<close>

datatype lexing =
    Between
  | Sharp
  | Bare bool string
  | DQuoted bool string
  | SQuoted bool string
  | NeedSpace

definition conf_space :: "char \<Rightarrow> bool" where
  "conf_space c \<longleftrightarrow> c = CHR '' '' \<or> c = CHR 0x09 \<or> c = CHR 0x0D \<or> c = CHR 0x0A"

text \<open>
  When a word is stored, a backslash before a quote or a backslash is dropped, and
  a backslash before \<^verbatim>\<open>t\<close>, \<^verbatim>\<open>r\<close> or \<^verbatim>\<open>n\<close> gives the control character.
\<close>

fun unescape :: "string \<Rightarrow> string" where
  "unescape [] = []"
| "unescape [c] = [c]"
| "unescape (c # d # cs) =
     (if c = CHR 0x5C then
        (if d = CHR 0x22 \<or> d = CHR 0x27 \<or> d = CHR 0x5C then d # unescape cs
         else if d = CHR ''t'' then CHR 0x09 # unescape cs
         else if d = CHR ''r'' then CHR 0x0D # unescape cs
         else if d = CHR ''n'' then CHR 0x0A # unescape cs
         else c # unescape (d # cs))
      else c # unescape (d # cs))"

fun read_tokens :: "lexing \<Rightarrow> string \<Rightarrow> token list option" where
  "read_tokens Between [] = Some []"
| "read_tokens Between (c # cs) =
     (if conf_space c then read_tokens Between cs
      else if c = CHR '';'' then map_option ((#) Semi) (read_tokens Between cs)
      else if c = CHR ''{'' then map_option ((#) Open) (read_tokens Between cs)
      else if c = CHR ''}'' then map_option ((#) Close) (read_tokens Between cs)
      else if c = CHR ''#'' then read_tokens Sharp cs
      else if c = CHR 0x5C then
        (case cs of [] \<Rightarrow> None | d # ds \<Rightarrow> read_tokens (Bare False [c, d]) ds)
      else if c = CHR 0x22 then read_tokens (DQuoted False []) cs
      else if c = CHR 0x27 then read_tokens (SQuoted False []) cs
      else if c = CHR ''$'' then read_tokens (Bare True [c]) cs
      else read_tokens (Bare False [c]) cs)"
| "read_tokens Sharp [] = Some []"
| "read_tokens Sharp (c # cs) =
     (if c = CHR 0x0A then read_tokens Between cs else read_tokens Sharp cs)"
| "read_tokens (Bare v w) [] = None"
| "read_tokens (Bare v w) (c # cs) =
     (if c = CHR ''{'' \<and> v then read_tokens (Bare v (w @ [c])) cs
      else if c = CHR 0x5C then
        (case cs of [] \<Rightarrow> None | d # ds \<Rightarrow> read_tokens (Bare False (w @ [c, d])) ds)
      else if c = CHR ''$'' then read_tokens (Bare True (w @ [c])) cs
      else if conf_space c then map_option ((#) (Word (unescape w))) (read_tokens Between cs)
      else if c = CHR '';'' then
        map_option (\<lambda>ts. Word (unescape w) # Semi # ts) (read_tokens Between cs)
      else if c = CHR ''{'' then
        map_option (\<lambda>ts. Word (unescape w) # Open # ts) (read_tokens Between cs)
      else read_tokens (Bare False (w @ [c])) cs)"
| "read_tokens (DQuoted v w) [] = None"
| "read_tokens (DQuoted v w) (c # cs) =
     (if c = CHR ''{'' \<and> v then read_tokens (DQuoted v (w @ [c])) cs
      else if c = CHR 0x5C then
        (case cs of [] \<Rightarrow> None | d # ds \<Rightarrow> read_tokens (DQuoted False (w @ [c, d])) ds)
      else if c = CHR ''$'' then read_tokens (DQuoted True (w @ [c])) cs
      else if c = CHR 0x22 then map_option ((#) (Word (unescape w))) (read_tokens NeedSpace cs)
      else read_tokens (DQuoted False (w @ [c])) cs)"
| "read_tokens (SQuoted v w) [] = None"
| "read_tokens (SQuoted v w) (c # cs) =
     (if c = CHR ''{'' \<and> v then read_tokens (SQuoted v (w @ [c])) cs
      else if c = CHR 0x5C then
        (case cs of [] \<Rightarrow> None | d # ds \<Rightarrow> read_tokens (SQuoted False (w @ [c, d])) ds)
      else if c = CHR ''$'' then read_tokens (SQuoted True (w @ [c])) cs
      else if c = CHR 0x27 then map_option ((#) (Word (unescape w))) (read_tokens NeedSpace cs)
      else read_tokens (SQuoted False (w @ [c])) cs)"
| "read_tokens NeedSpace [] = Some []"
| "read_tokens NeedSpace (c # cs) =
     (if conf_space c then read_tokens Between cs
      else if c = CHR '';'' then map_option ((#) Semi) (read_tokens Between cs)
      else if c = CHR ''{'' then map_option ((#) Open) (read_tokens Between cs)
      else if c = CHR '')'' then read_tokens (Bare False [c]) cs
      else None)"

text \<open>
  Words up to \<^verbatim>\<open>;\<close> or \<^verbatim>\<open>{\<close> make a directive. A directive without a word, a
  \<^verbatim>\<open>}\<close> behind unfinished words or outside every block, and an end of the text inside a
  directive or a block are errors. The reader does not know the directives; it collects,
  in order, the arguments of each \<^verbatim>\<open>location\<close> directive that opens a block.
\<close>

definition unwords :: "string list \<Rightarrow> string" where
  "unwords ws = (case ws of [] \<Rightarrow> [] | w # ws' \<Rightarrow> w @ concat (map (\<lambda>x. CHR '' '' # x) ws'))"

fun locations :: "nat \<Rightarrow> string list \<Rightarrow> token list \<Rightarrow> string list option" where
  "locations depth ws [] = (if ws = [] \<and> depth = 0 then Some [] else None)"
| "locations depth ws (Word w # ts) = locations depth (ws @ [w]) ts"
| "locations depth ws (Semi # ts) = (if ws = [] then None else locations depth [] ts)"
| "locations depth ws (Open # ts) =
     (if ws = [] then None
      else if hd ws = ''location'' then
        map_option ((#) (unwords (tl ws))) (locations (Suc depth) [] ts)
      else locations (Suc depth) [] ts)"
| "locations depth ws (Close # ts) =
     (if ws = [] \<and> 0 < depth then locations (depth - 1) [] ts else None)"

definition route_sequence :: "string \<Rightarrow> string list" where
  "route_sequence doc =
     (case read_tokens Between doc of
        None \<Rightarrow> []
      | Some ts \<Rightarrow> (case locations 0 [] ts of None \<Rightarrow> [] | Some ps \<Rightarrow> ps))"

text \<open>
  A plain character has no meaning of its own for the reader; a non-empty string of
  plain characters is read as one word, itself.
\<close>

definition conf_plain :: "char \<Rightarrow> bool" where
  "conf_plain c \<longleftrightarrow>
     \<not> conf_space c \<and> c \<notin> set [CHR '';'', CHR ''{'', CHR ''}'', CHR ''#'', CHR ''$'',
        CHR 0x5C, CHR 0x22, CHR 0x27]"

text \<open>
  The invariant of a proxy configuration: the route sequence is not empty, exactly one
  prefix is the root, and the root comes last.
\<close>

definition ProxyConfig_invariant :: "string list \<Rightarrow> bool" where
  "ProxyConfig_invariant prefixes \<longleftrightarrow>
     prefixes \<noteq> [] \<and> length (filter (\<lambda>p. p = ''/'') prefixes) = 1 \<and> last prefixes = ''/''"

subsection \<open>Operations and outputs of a run\<close>

definition no_project_error :: string where
  "no_project_error =
     ''Error: No GCP project set. Run 'gcloud config set project YOUR_PROJECT_ID', then retry.''"

text \<open>The build, push and deploy operations among the events.\<close>

definition build_push_deploy :: "event \<Rightarrow> bool" where
  "build_push_deploy ev =
     (case ev of
        Run argv \<Rightarrow> take 2 argv = [''docker'', ''build''] \<or> take 2 argv = [''docker'', ''push'']
          \<or> take 3 argv = [''gcloud'', ''run'', ''deploy'']
      | _ \<Rightarrow> False)"

subsection \<open>Some concrete worlds\<close>

text \<open>
  A world in which every command succeeds: the project is \<^verbatim>\<open>demo\<close>, the build
  directory \<^verbatim>\<open>/tmp/tmp.ws\<close>, the services get the addresses of the specification's
  example.
\<close>

definition all_succeed :: "string list \<Rightarrow> nat \<times> string" where
  "all_succeed argv =
     (if argv = gcloud_config_get_value_project then (0, ''demo'' @ [CHR 0x0A])
      else if argv = [''mktemp'', ''-d''] then (0, ''/tmp/tmp.ws'' @ [CHR 0x0A])
      else if argv = gcloud_run_services_describe ''api'' ''us-central1''
        then (0, ''https://api-xyz.example'' @ [CHR 0x0A])
      else if argv = gcloud_run_services_describe ''web'' ''us-central1''
        then (0, ''https://web-xyz.example'' @ [CHR 0x0A])
      else if argv = gcloud_run_services_describe ''nginx'' ''us-central1''
        then (0, ''https://nginx-xyz.example'' @ [CHR 0x0A])
      else (0, []))"

definition world_ok :: env where
  "world_ok = \<lparr>CLOUD_RUN_REGION = None, script_name = ''./deploy.sh'',
     command = all_succeed, redirect = (\<lambda>_ _. 0)\<rparr>"

text \<open>The same addresses under another project, region and build directory.\<close>

definition world_other :: env where
  "world_other = \<lparr>CLOUD_RUN_REGION = Some ''europe-west1'', script_name = ''deploy.sh'',
     command = (\<lambda>argv.
       if argv = gcloud_config_get_value_project then (0, ''other'' @ [CHR 0x0A])
       else if argv = [''mktemp'', ''-d''] then (0, ''/var/tmp/x'' @ [CHR 0x0A])
       else if argv = gcloud_run_services_describe ''api'' ''europe-west1''
         then (0, ''https://api-xyz.example'' @ [CHR 0x0A])
       else if argv = gcloud_run_services_describe ''web'' ''europe-west1''
         then (0, ''https://web-xyz.example'' @ [CHR 0x0A])
       else if argv = gcloud_run_services_describe ''nginx'' ''europe-west1''
         then (0, ''https://nginx-abc.example'' @ [CHR 0x0A])
       else (0, [])),
     redirect = (\<lambda>_ _. 0)\<rparr>"

text \<open>The platform reports no address for the API service.\<close>

definition world_no_api_url :: env where
  "world_no_api_url = world_ok\<lparr>command := (\<lambda>argv.
     if argv = gcloud_run_services_describe ''api'' ''us-central1'' then (0, [CHR 0x0A])
     else all_succeed argv)\<rparr>"

text \<open>No project is configured: gcloud fails and prints nothing.\<close>

definition world_no_project :: env where
  "world_no_project = world_ok\<lparr>command := (\<lambda>argv.
     if argv = gcloud_config_get_value_project then (1, []) else all_succeed argv)\<rparr>"

text \<open>
  The platform prints, as the address of the API service, a line that closes the
  location block and opens another one.
\<close>

definition world_injected :: env where
  "world_injected = world_ok\<lparr>command := (\<lambda>argv.
     if argv = gcloud_run_services_describe ''api'' ''us-central1''
       then (0, ''http://x; } location / { proxy_pass http://y'' @ [CHR 0x0A])
     else all_succeed argv)\<rparr>"

text \<open>The temporary directory cannot be made.\<close>

definition world_no_tmp :: env where
  "world_no_tmp = world_ok\<lparr>command := (\<lambda>argv.
     if argv = [''mktemp'', ''-d''] then (1, []) else all_succeed argv)\<rparr>"

section \<open>Lemmas\<close>

subsection \<open>The prediction form\<close>

lemma parseInt_dot5: "parseInt ''.5'' = NaN"
  by (simp add: parseInt_def StrWhiteSpaceChar_def radix_digit_def digit_value_def Let_def)

lemma clamp_NaN_or_within:
  "0 \<le> hi \<Longrightarrow> Math_max (Num 0) (Math_min (Num hi) x) = NaN
     \<or> within 0 hi (Math_max (Num 0) (Math_min (Num hi) x))"
  by (cases x) auto

subsection \<open>Rules for script invariants\<close>

lemma valid_Next: "valid P m R E \<Longrightarrow> P s \<Longrightarrow> m s = (Next a, s') \<Longrightarrow> P s' \<and> R a"
  unfolding valid_def by (drule spec [where x = s]) simp

lemma valid_Exit: "valid P m R E \<Longrightarrow> P s \<Longrightarrow> m s = (Exit c, s') \<Longrightarrow> P s' \<and> E c"
  unfolding valid_def by (drule spec [where x = s]) simp

lemma valid_andthen:
  assumes m: "valid P m R' E" and f: "\<And>a. R' a \<Longrightarrow> valid P (f a) R E"
  shows "valid P (andthen m f) R E"
  unfolding valid_def
proof (intro allI impI)
  fix s assume s: "P s"
  obtain r s' where ms: "m s = (r, s')" by (cases "m s")
  show "case andthen m f s of (Next a, s') \<Rightarrow> P s' \<and> R a | (Exit c, s') \<Rightarrow> P s' \<and> E c"
  proof (cases r)
    case (Next a)
    with valid_Next [OF m s] ms have "P s'" and "R' a" by simp_all
    with f [of a] have "case f a s' of (Next a, s') \<Rightarrow> P s' \<and> R a | (Exit c, s') \<Rightarrow> P s' \<and> E c"
      by (simp add: valid_def)
    with Next ms show ?thesis by (simp add: andthen_def)
  next
    case (Exit c)
    with valid_Exit [OF m s] ms show ?thesis by (simp add: andthen_def)
  qed
qed

lemma valid_return: "R v \<Longrightarrow> valid P (\<lambda>s. (Next v, s)) R E"
  by (simp add: valid_def)

lemma valid_exit_0: "E 0 \<Longrightarrow> valid P (exit_sh 0) R E"
  by (simp add: valid_def exit_sh_def)

lemma valid_exit_1: "nonzero_exits E \<Longrightarrow> valid P (exit_sh 1) R E"
  by (simp add: valid_def exit_sh_def nonzero_exits_def)

lemma valid_if:
  "(b \<Longrightarrow> valid P m R E) \<Longrightarrow> (\<not> b \<Longrightarrow> valid P n R E) \<Longrightarrow> valid P (if b then m else n) R E"
  by simp

lemma valid_seq_Nil: "valid P (seq []) (\<lambda>_. True) E"
  by (simp add: valid_def)

lemma valid_seq_Cons:
  "valid P c (\<lambda>_. True) E \<Longrightarrow> valid P (seq cs) R E \<Longrightarrow> valid P (seq (c # cs)) R E"
  unfolding seq.simps by (rule valid_andthen [where R' = "\<lambda>_. True"]) simp_all

lemma valid_seq_exit_0: "E 0 \<Longrightarrow> valid P (seq (exit_sh 0 # cs)) R E"
  by (simp add: valid_def exit_sh_def andthen_def)

lemma valid_seq_exit_1: "nonzero_exits E \<Longrightarrow> valid P (seq (exit_sh 1 # cs)) R E"
  by (simp add: valid_def exit_sh_def andthen_def nonzero_exits_def)

lemma framed_interrupt: "framed P \<Longrightarrow> P s \<Longrightarrow> P (s\<lparr>interrupt := n\<rparr>)"
  unfolding framed_def by blast

lemma framed_Run: "framed P \<Longrightarrow> accepts P (Run argv)"
  unfolding framed_def accepts_def by blast

lemma framed_Echo: "framed P \<Longrightarrow> accepts P (Echo t)"
  unfolding framed_def accepts_def by blast

lemma framed_WriteFile:
  "framed P \<Longrightarrow> n \<noteq> ''default.conf'' \<Longrightarrow> accepts P (WriteFile d n c)"
  unfolding framed_def accepts_def by blast

lemma valid_next_command:
  assumes "framed P" and "nonzero_exits E"
  shows "valid P next_command (\<lambda>_. True) E"
  using assms(2) unfolding valid_def next_command_def nonzero_exits_def
  by (simp add: assms(1) framed_interrupt split: option.splits nat.splits)

lemma valid_logging:
  assumes "framed P" and "nonzero_exits E" and "accepts P ev"
    and "\<And>a. r = Next a \<Longrightarrow> R a" and "\<And>c. r = Exit c \<Longrightarrow> c \<noteq> 0"
  shows "valid P (andthen next_command (\<lambda>_ s. (r, emit ev s))) R E"
proof (rule valid_andthen [OF valid_next_command [OF assms(1,2)] ])
  show "valid P (\<lambda>s. (r, emit ev s)) R E"
    unfolding valid_def using assms(2,3,4,5)
    by (cases r) (simp_all add: accepts_def nonzero_exits_def)
qed

lemma valid_echo: "framed P \<Longrightarrow> nonzero_exits E \<Longrightarrow> valid P (echo t) (\<lambda>_. True) E"
  unfolding echo_def by (rule valid_logging) (simp_all add: framed_Echo)

lemma valid_simple_command:
  "framed P \<Longrightarrow> nonzero_exits E \<Longrightarrow> valid P (simple_command e argv) (\<lambda>_. True) E"
  unfolding simple_command_def
  by (rule valid_logging) (simp_all add: framed_Run split: if_splits)

lemma valid_command_subst:
  "framed P \<Longrightarrow> nonzero_exits E \<Longrightarrow>
   valid P (command_subst e argv) (\<lambda>v. v = strip_newlines (snd (command e argv))) E"
  unfolding command_subst_def
  by (rule valid_logging) (simp_all add: framed_Run split: if_splits)

lemma valid_cat_heredoc:
  "framed P \<Longrightarrow> nonzero_exits E \<Longrightarrow> accepts P (WriteFile dir name content) \<Longrightarrow>
   valid P (cat_heredoc e dir name content) (\<lambda>_. True) E"
  unfolding cat_heredoc_def
  by (rule valid_logging) (simp_all split: if_splits)

lemma valid_andthen_unit:
  "valid P m (\<lambda>_. True) E \<Longrightarrow> valid P (f ()) R E \<Longrightarrow> valid P (andthen m f) R E"
  by (rule valid_andthen [where R' = "\<lambda>_. True"]) simp_all

lemmas valid_andthen_subst = valid_andthen [OF valid_command_subst]

lemmas valid_intros = valid_andthen_unit valid_andthen_subst valid_if valid_seq_exit_1
  valid_seq_Cons valid_seq_Nil valid_echo valid_simple_command valid_cat_heredoc valid_exit_1
  valid_return

lemma valid_usage: "framed P \<Longrightarrow> nonzero_exits E \<Longrightarrow> valid P (usage e) R E"
  unfolding usage_def usage_text_def list.map append.simps
  by (intro valid_intros)

lemma valid_local_mode:
  "framed P \<Longrightarrow> nonzero_exits E \<Longrightarrow> E 0 \<Longrightarrow> valid P (local_mode e) R E"
  unfolding local_mode_def
  by (intro valid_seq_exit_0 valid_intros)

lemma valid_step1_api:
  assumes "framed P" and "nonzero_exits E"
  shows "valid P (step1_api e PROJECT_ID (REGION e))
           (\<lambda>a. a = service_url e ''api'' \<and> a \<noteq> []) E"
  unfolding step1_api_def
  by (intro valid_intros assms) (simp_all add: service_url_def)

lemma valid_step2_web:
  assumes "framed P" and "nonzero_exits E"
  shows "valid P (step2_web e PROJECT_ID (REGION e))
           (\<lambda>a. a = service_url e ''web'' \<and> a \<noteq> []) E"
  unfolding step2_web_def
  by (intro valid_intros assms) (simp_all add: service_url_def)

lemma valid_step6_nginx:
  assumes "framed P" and "nonzero_exits E"
  shows "valid P (step6_nginx e PROJECT_ID (REGION e)) (\<lambda>_. True) E"
  unfolding step6_nginx_def
  by (intro valid_intros assms) simp_all

lemma valid_deploy_mode:
  assumes "framed P" and "nonzero_exits E"
    and "service_url e ''api'' \<noteq> [] \<Longrightarrow> service_url e ''web'' \<noteq> [] \<Longrightarrow> E 0"
    and "service_url e ''api'' \<noteq> [] \<Longrightarrow> service_url e ''web'' \<noteq> [] \<Longrightarrow>
         accepts P (WriteFile dir ''default.conf''
           (default_conf (service_url e ''api'') (service_url e ''web'')))"
  shows "valid P (deploy_mode e PROJECT_ID (REGION e) dir) R E"
  unfolding deploy_mode_def step3_default_conf_def step4_Dockerfile_def
    step5_nginx_image_def step7_summary_def
  by (intro valid_seq_exit_0 valid_intros valid_andthen [OF valid_step1_api]
      valid_andthen [OF valid_step2_web] valid_andthen [OF valid_step6_nginx]
      assms(1,2))
    (simp_all add: assms framed_WriteFile)

lemma valid_main_logic:
  assumes "framed P" and "nonzero_exits E"
    and "args = [''local''] \<Longrightarrow> E 0"
    and "args = [''deploy''] \<Longrightarrow> service_url e ''api'' \<noteq> [] \<Longrightarrow> service_url e ''web'' \<noteq> [] \<Longrightarrow> E 0"
    and "args = [''deploy''] \<Longrightarrow> service_url e ''api'' \<noteq> [] \<Longrightarrow> service_url e ''web'' \<noteq> [] \<Longrightarrow>
         accepts P (WriteFile dir ''default.conf''
           (default_conf (service_url e ''api'') (service_url e ''web'')))"
  shows "valid P (main_logic e args PROJECT_ID dir) R E"
proof -
  have args: "args = [hd args]" if "length args = 1"
    using that by (cases args) simp_all
  show ?thesis
    unfolding main_logic_def
    by (intro valid_if valid_usage valid_local_mode valid_deploy_mode assms(1,2))
      (use args assms(3,4,5) in simp_all)
qed

lemma valid_resolve_PROJECT_ID:
  "framed P \<Longrightarrow> nonzero_exits E \<Longrightarrow> valid P (resolve_PROJECT_ID e) (\<lambda>v. v = project_of e) E"
  unfolding resolve_PROJECT_ID_def by (rule valid_logging) (simp_all add: framed_Run)

lemma framed_on_trace:
  assumes "\<And>tr ev. T tr \<Longrightarrow> (\<forall>d c. ev \<noteq> WriteFile d ''default.conf'' c) \<Longrightarrow> T (tr @ [ev])"
  shows "framed (on_trace T)"
  unfolding framed_def on_trace_def emit_def by (simp add: assms)

lemma valid_mktemp_d_on_trace:
  "framed (on_trace T) \<Longrightarrow> nonzero_exits E \<Longrightarrow> valid (on_trace T) (mktemp_d e) (\<lambda>_. True) E"
  unfolding mktemp_d_def
  by (rule valid_andthen [OF valid_command_subst]) (simp_all add: valid_def on_trace_def)

lemma valid_trap_cleanup_EXIT_on_trace:
  "framed (on_trace T) \<Longrightarrow> nonzero_exits E \<Longrightarrow> valid (on_trace T) trap_cleanup_EXIT (\<lambda>_. True) E"
  unfolding trap_cleanup_EXIT_def
  by (rule valid_andthen [OF valid_next_command]) (simp_all add: valid_def on_trace_def)

lemma valid_deploy_sh_on_trace:
  assumes "framed (on_trace T)" and "nonzero_exits E"
    and "args = [''local''] \<Longrightarrow> E 0"
    and "args = [''deploy''] \<Longrightarrow> service_url e ''api'' \<noteq> [] \<Longrightarrow> service_url e ''web'' \<noteq> [] \<Longrightarrow> E 0"
    and "\<And>dir. args = [''deploy''] \<Longrightarrow> service_url e ''api'' \<noteq> [] \<Longrightarrow> service_url e ''web'' \<noteq> [] \<Longrightarrow>
         accepts (on_trace T) (WriteFile dir ''default.conf''
           (default_conf (service_url e ''api'') (service_url e ''web'')))"
  shows "valid (on_trace T) (deploy_sh e args) (\<lambda>_. False) E"
  unfolding deploy_sh_def
  by (intro valid_andthen [OF valid_resolve_PROJECT_ID] valid_andthen [OF valid_mktemp_d_on_trace]
      valid_andthen [OF valid_trap_cleanup_EXIT_on_trace] valid_main_logic valid_intros
      assms(1,2))
    (use assms(3,4,5) in simp_all)

lemma run_on_trace:
  assumes step: "\<And>tr ev. T tr \<Longrightarrow> (\<forall>d c. ev \<noteq> WriteFile d ''default.conf'' c) \<Longrightarrow> T (tr @ [ev])"
    and init: "T []"
    and nz: "nonzero_exits E"
    and loc: "args = [''local''] \<Longrightarrow> E 0"
    and dep: "args = [''deploy''] \<Longrightarrow> service_url e ''api'' \<noteq> [] \<Longrightarrow> service_url e ''web'' \<noteq> [] \<Longrightarrow> E 0"
    and conf: "\<And>tr dir. args = [''deploy''] \<Longrightarrow> service_url e ''api'' \<noteq> [] \<Longrightarrow> service_url e ''web'' \<noteq> [] \<Longrightarrow>
         T tr \<Longrightarrow> T (tr @ [WriteFile dir ''default.conf''
           (default_conf (service_url e ''api'') (service_url e ''web''))])"
  shows "T (trace (snd (run_interruptible e args k))) \<and> E (fst (run_interruptible e args k))"
proof -
  have fr: "framed (on_trace T)" by (rule framed_on_trace) (rule step)
  have v: "valid (on_trace T) (deploy_sh e args) (\<lambda>_. False) E"
    by (rule valid_deploy_sh_on_trace [OF fr nz loc dep])
      (simp_all add: accepts_def on_trace_def emit_def conf)
  have s0: "on_trace T (start k)" by (simp add: on_trace_def start_def init)
  obtain r s where rs: "deploy_sh e args (start k) = (r, s)" by (cases "deploy_sh e args (start k)")
  show ?thesis
  proof (cases r)
    case (Next a)
    with valid_Next [OF v s0] rs show ?thesis by simp
  next
    case (Exit c)
    with valid_Exit [OF v s0] rs have "T (trace s)" and "E c" by (simp_all add: on_trace_def)
    moreover from \<open>T (trace s)\<close> have "T (trace (cleanup e s))"
      by (simp add: cleanup_def emit_def step)
    ultimately show ?thesis using Exit rs
      by (simp add: run_interruptible_def exit_code_def at_exit_def)
  qed
qed

lemma framed_trap_guards: "framed (trap_guards d)"
  by (simp add: framed_def trap_guards_def emit_def)

lemma valid_main_logic_trap_guards:
  "valid (trap_guards d) (main_logic e args PROJECT_ID dir) (\<lambda>_. False) (\<lambda>_. True)"
  by (rule valid_main_logic [OF framed_trap_guards])
    (simp_all add: nonzero_exits_def accepts_def trap_guards_def emit_def)

lemma deploy_sh_before_or_after_trap:
  assumes after: "\<And>dir s3. trap_guards (build_dir e) s3 \<Longrightarrow>
      Q (main_logic e args (project_of e) dir s3)"
    and before: "\<And>r s. \<not> trap_EXIT s \<Longrightarrow>
      workspace s = None \<or> k \<noteq> None \<and> interrupt s = None \<and> workspace_created e (trace s) \<Longrightarrow>
      Q (r, s)"
  shows "Q (deploy_sh e args (start k))"
  by (simp add: deploy_sh_def andthen_def resolve_PROJECT_ID_def next_command_def emit_def
      start_def echo_def exit_sh_def mktemp_d_def command_subst_def trap_cleanup_EXIT_def
      after before trap_guards_def build_dir_def workspace_created_def
      split: option.splits nat.splits)

lemma main_logic_trap_guards:
  assumes "trap_guards d s3"
  shows "trap_guards d (snd (main_logic e args PROJECT_ID dir s3))"
proof -
  note v = valid_main_logic_trap_guards [of d e args PROJECT_ID dir]
  obtain r s where m: "main_logic e args PROJECT_ID dir s3 = (r, s)"
    by (cases "main_logic e args PROJECT_ID dir s3")
  show ?thesis
  proof (cases r)
    case (Next a)
    with valid_Next [OF v assms] m show ?thesis by simp
  next
    case (Exit c)
    with valid_Exit [OF v assms] m show ?thesis by simp
  qed
qed

lemma read_tokens_Bare_plain:
  "list_all conf_plain A \<Longrightarrow>
   read_tokens (Bare False w) (A @ rest) = read_tokens (Bare False (w @ A)) rest"
  by (induction A arbitrary: w) (simp_all add: conf_plain_def)

lemma read_tokens_Between_plain:
  assumes "A \<noteq> []" and "list_all conf_plain A"
  shows "read_tokens Between (A @ rest) = read_tokens (Bare False A) rest"
proof -
  from assms(1) obtain a A' where A: "A = a # A'" by (cases A) auto
  with assms(2) have a: "conf_plain a" and A': "list_all conf_plain A'" by simp_all
  from a have "read_tokens Between (A @ rest) = read_tokens (Bare False [a]) (A' @ rest)"
    by (simp add: A conf_plain_def)
  with read_tokens_Bare_plain [OF A', of "[a]" rest] A show ?thesis by simp
qed

lemma unescape_plain: "list_all conf_plain A \<Longrightarrow> unescape A = A"
  by (induction A rule: unescape.induct) (simp_all add: conf_plain_def)

lemma route_sequence_default_conf:
  assumes "A \<noteq> []" and "list_all conf_plain A" and "B \<noteq> []" and "list_all conf_plain B"
  shows "route_sequence (default_conf A B) = [''/api/'', ''/'']"
  by (simp add: route_sequence_def default_conf_def unlines_def conf_space_def
      read_tokens_Between_plain [OF assms(1,2)] read_tokens_Between_plain [OF assms(3,4)]
      unescape_plain [OF assms(2)] unescape_plain [OF assms(4)] unwords_def)



lemma synthesized_Nil: "synthesized [] = []"
  by (simp add: synthesized_def)

lemma synthesized_append: "synthesized (tr @ [ev]) = synthesized tr @ synthesized [ev]"
  by (simp add: synthesized_def)

lemma synthesized_other:
  "\<forall>d c. ev \<noteq> WriteFile d ''default.conf'' c \<Longrightarrow> synthesized [ev] = []"
  by (cases ev) (simp_all add: synthesized_def)

lemma synthesized_default_conf: "synthesized [WriteFile d ''default.conf'' c] = [c]"
  by (simp add: synthesized_def)

lemma synthesized_content:
  assumes "c \<in> set (synthesized (trace (snd (run_interruptible e args k))))"
  shows "c = default_conf (service_url e ''api'') (service_url e ''web'')
     \<and> service_url e ''api'' \<noteq> [] \<and> service_url e ''web'' \<noteq> []"
proof -
  let ?T = "\<lambda>tr. \<forall>c \<in> set (synthesized tr).
          c = default_conf (service_url e ''api'') (service_url e ''web'')
          \<and> service_url e ''api'' \<noteq> [] \<and> service_url e ''web'' \<noteq> []"
  have "?T (trace (snd (run_interruptible e args k))) \<and> True"
    by (rule run_on_trace [where T = ?T and E = "\<lambda>c. True"])
      (simp_all add: synthesized_Nil synthesized_append synthesized_other
        synthesized_default_conf nonzero_exits_def)
  with assms show ?thesis by blast
qed

subsection \<open>Runs in the concrete worlds\<close>

lemmas script_defs = run_def run_interruptible_def exit_code_def at_exit_def cleanup_def start_def
  deploy_sh_def main_logic_def usage_def usage_text_def local_mode_def deploy_mode_def
  step1_api_def step2_web_def step3_default_conf_def step4_Dockerfile_def
  step5_nginx_image_def step6_nginx_def step7_summary_def andthen_def exit_sh_def
  next_command_def emit_def echo_def simple_command_def command_subst_def cat_heredoc_def
  resolve_PROJECT_ID_def mktemp_d_def trap_cleanup_EXIT_def project_of_def strip_newlines_def
  REGION_def gcloud_config_get_value_project_def gcloud_run_services_describe_def
  gcloud_run_deploy_def IMAGE_API_def IMAGE_WEB_def IMAGE_NGINX_def

lemmas world_defs = world_ok_def world_other_def world_no_api_url_def world_no_project_def
  world_no_tmp_def world_injected_def all_succeed_def

lemma service_url_world_ok:
  "service_url world_ok ''api'' = ''https://api-xyz.example''"
  "service_url world_ok ''web'' = ''https://web-xyz.example''"
  by (simp_all add: service_url_def world_defs REGION_def strip_newlines_def
      gcloud_config_get_value_project_def gcloud_run_services_describe_def)

lemma service_url_world_other:
  "service_url world_other ''api'' = ''https://api-xyz.example''"
  "service_url world_other ''web'' = ''https://web-xyz.example''"
  by (simp_all add: service_url_def world_defs REGION_def strip_newlines_def
      gcloud_config_get_value_project_def gcloud_run_services_describe_def)

lemma synthesized_world_ok:
  "synthesized (trace (snd (run_interruptible world_ok [''deploy''] None)))
     = [default_conf ''https://api-xyz.example'' ''https://web-xyz.example'']"
  by (simp add: script_defs world_defs synthesized_def)

lemma synthesized_world_other:
  "synthesized (trace (snd (run_interruptible world_other [''deploy''] None)))
     = [default_conf ''https://api-xyz.example'' ''https://web-xyz.example'']"
  by (simp add: script_defs world_defs synthesized_def)

lemma synthesized_world_injected:
  "synthesized (trace (snd (run_interruptible world_injected [''deploy''] None)))
     = [default_conf ''http://x; } location / { proxy_pass http://y'' ''https://web-xyz.example'']"
  by (simp add: script_defs world_defs synthesized_def)

lemma route_sequence_injected:
  "route_sequence
     (default_conf ''http://x; } location / { proxy_pass http://y'' ''https://web-xyz.example'')
   = [''/api/'', ''/'', ''/'']"
  by (simp add: route_sequence_def default_conf_def unlines_def conf_space_def unwords_def)

text \<open>
  A signal that arrives when the script has run its last command finds the trap's
  \<^verbatim>\<open>rm -rf\<close> and may kill it before the directory is gone; the worst case, in which
  the directory stays, is the one taken here.
\<close>

lemma signal_during_cleanup:
  "fst (run_interruptible world_ok [''local''] (Some 5)) = 0
   \<and> workspace (snd (run_interruptible world_ok [''local''] (Some 5))) = Some ''/tmp/tmp.ws''"
  by (simp add: script_defs world_defs)


text \<open>In local mode the first thing a run does is still to ask gcloud for the project.\<close>

lemma local_mode_resolves_project_first:
  "take 1 (trace (snd (run e [''local'']))) = [Run gcloud_config_get_value_project]"
  by (simp add: run_def run_interruptible_def exit_code_def at_exit_def cleanup_def start_def
      deploy_sh_def main_logic_def local_mode_def andthen_def exit_sh_def
      next_command_def emit_def echo_def simple_command_def command_subst_def
      resolve_PROJECT_ID_def mktemp_d_def trap_cleanup_EXIT_def)

section \<open>The claims\<close>

text \<open>
  Claim C1. In a run of the deploy pipeline, when the address resolution of the
  \<^verbatim>\<open>api\<close> service or of the \<^verbatim>\<open>web\<close> service gives the empty string, the process exits
  with a non-zero code and \<^verbatim>\<open>default.conf\<close> is never generated: synthesis is not
  reached, so it never sees an empty address. This holds with or without an interrupt.
\<close>

theorem C1_empty_address_aborts_before_synthesis:
  assumes "args = [''deploy'']"
    and "service_url e ''api'' = [] \<or> service_url e ''web'' = []"
  shows "fst (run_interruptible e args k) \<noteq> 0
       \<and> synthesized (trace (snd (run_interruptible e args k))) = []"
proof -
  have "synthesized (trace (snd (run_interruptible e args k))) = []
      \<and> fst (run_interruptible e args k) \<noteq> 0"
    by (rule run_on_trace [where T = "\<lambda>tr. synthesized tr = []" and E = "\<lambda>c. c \<noteq> 0"])
      (use assms in \<open>auto simp: synthesized_Nil synthesized_append synthesized_other
        nonzero_exits_def\<close>)
  then show ?thesis by simp
qed

theorem C1_witness:
  "service_url world_no_api_url ''api'' = []
   \<and> fst (run_interruptible world_no_api_url [''deploy''] None) \<noteq> 0
   \<and> synthesized (trace (snd (run_interruptible world_no_api_url [''deploy''] None))) = []"
proof -
  have h: "service_url world_no_api_url ''api'' = []"
    by (simp add: service_url_def world_defs REGION_def strip_newlines_def
        gcloud_run_services_describe_def)
  from C1_empty_address_aborts_before_synthesis [of "[''deploy'']" world_no_api_url None] h
  show ?thesis by simp
qed



text \<open>
  Claim C3, as the script has it. The directory made by \<^verbatim>\<open>mktemp -d\<close> does not exist
  when the process has exited, on every exit path on which the cleanup is not
  disturbed: no signal arrives while the EXIT trap runs, its \<^verbatim>\<open>rm -rf\<close> succeeds, and
  the run is not interrupted between \<^verbatim>\<open>mktemp -d\<close> and \<^verbatim>\<open>trap cleanup EXIT\<close>. That covers
  success, a usage error and the failure of any stage under \<^verbatim>\<open>set -e\<close> (no interrupt),
  an interrupt that arrives once the trap is set, and an interrupt that arrives before
  the directory was made.
\<close>

theorem C3_workspace_removed_by_undisturbed_cleanup:
  assumes "interrupt (snd (run_interruptible e args k)) \<noteq> Some 0"
    and "fst (command e [''rm'', ''-rf'', build_dir e]) = 0"
    and "k = None \<or> trap_EXIT (snd (run_interruptible e args k))
       \<or> \<not> workspace_created e (trace (snd (run_interruptible e args k)))"
  shows "workspace (snd (run_interruptible e args k)) = None"
proof -
  let ?Q = "\<lambda>rs :: unit status \<times> shell.
    interrupt (at_exit e (snd rs)) \<noteq> Some 0 \<longrightarrow>
    (k = None \<or> trap_EXIT (at_exit e (snd rs))
       \<or> \<not> workspace_created e (trace (at_exit e (snd rs)))) \<longrightarrow>
    workspace (at_exit e (snd rs)) = None"
  have "?Q (deploy_sh e args (start k))"
  proof (rule deploy_sh_before_or_after_trap [where Q = ?Q])
    fix dir s3 assume "trap_guards (build_dir e) s3"
    then have "trap_guards (build_dir e) (snd (main_logic e args (project_of e) dir s3))"
      by (rule main_logic_trap_guards)
    then show "?Q (main_logic e args (project_of e) dir s3)"
      using assms(2) by (auto simp: at_exit_def trap_guards_def cleanup_def emit_def)
  next
    fix r :: "unit status" and s :: shell
    assume "\<not> trap_EXIT s"
      and "workspace s = None \<or> k \<noteq> None \<and> interrupt s = None \<and> workspace_created e (trace s)"
    then show "?Q (r, s)" by (auto simp: at_exit_def)
  qed
  moreover have "snd (run_interruptible e args k) = at_exit e (snd (deploy_sh e args (start k)))"
    by (simp add: run_interruptible_def split: prod.splits)
  ultimately show ?thesis using assms(1,3) by auto
qed

theorem C3_witness:
  "interrupt (snd (run_interruptible world_ok [''deploy''] (Some 5))) \<noteq> Some 0
   \<and> fst (command world_ok [''rm'', ''-rf'', build_dir world_ok]) = 0
   \<and> trap_EXIT (snd (run_interruptible world_ok [''deploy''] (Some 5)))
   \<and> workspace (snd (run_interruptible world_ok [''deploy''] (Some 5))) = None"
proof -
  have i: "interrupt (snd (run_interruptible world_ok [''deploy''] (Some 5))) \<noteq> Some 0"
    and t: "trap_EXIT (snd (run_interruptible world_ok [''deploy''] (Some 5)))"
    by (simp_all add: script_defs world_defs)
  have r: "fst (command world_ok [''rm'', ''-rf'', build_dir world_ok]) = 0"
    by (simp add: world_defs build_dir_def strip_newlines_def
        gcloud_config_get_value_project_def gcloud_run_services_describe_def)
  from C3_workspace_removed_by_undisturbed_cleanup [of world_ok "[''deploy'']" "Some 5", OF i r] t i r
  show ?thesis by simp
qed

text \<open>
  Claim C3 as stated fails: an interrupt that arrives after \<^verbatim>\<open>mktemp -d\<close> has made the
  directory and before \<^verbatim>\<open>trap cleanup EXIT\<close> has run ends the shell with no trap set, and
  the directory is still there after the exit.
\<close>

theorem C3_counterexample:
  "fst (run_interruptible world_ok [''deploy''] (Some 2)) = 130
   \<and> workspace (snd (run_interruptible world_ok [''deploy''] (Some 2))) = Some ''/tmp/tmp.ws''"
  by (simp add: script_defs world_defs)

text \<open>
  Claim C4. When the project identity cannot be resolved (gcloud gives an empty
  project), the process prints the configuration error and exits with code 1, whatever
  the arguments, and no build, push or deploy operation has been run.
\<close>

theorem C4_missing_project_is_config_error:
  assumes "project_of e = []"
  shows "fst (run e args) = 1
       \<and> printed (trace (snd (run e args))) = [no_project_error]
       \<and> filter build_push_deploy (trace (snd (run e args))) = []"
  using assms
  by (simp add: run_def run_interruptible_def exit_code_def at_exit_def start_def deploy_sh_def
      andthen_def resolve_PROJECT_ID_def next_command_def emit_def echo_def exit_sh_def
      printed_def no_project_error_def build_push_deploy_def
      gcloud_config_get_value_project_def)

theorem C4_witness:
  "project_of world_no_project = []
   \<and> fst (run world_no_project [''deploy'']) = 1
   \<and> printed (trace (snd (run world_no_project [''deploy'']))) = [no_project_error]
   \<and> filter build_push_deploy (trace (snd (run world_no_project [''deploy'']))) = []"
proof -
  have h: "project_of world_no_project = []"
    by (simp add: project_of_def world_defs strip_newlines_def
        gcloud_config_get_value_project_def)
  from C4_missing_project_is_config_error [OF h, of "[''deploy'']"] h show ?thesis by simp
qed

text \<open>
  Claim C5, as the script has it. Every proxy configuration a run generates from
  resolved addresses that are plain words (no white space, \<^verbatim>\<open>;\<close>, \<^verbatim>\<open>{\<close>, \<^verbatim>\<open>}\<close>,
  \<^verbatim>\<open>#\<close>, \<^verbatim>\<open>$\<close>, quote or backslash) satisfies the invariant of a proxy configuration:
  read back as nginx reads it, its route sequence is not empty, exactly one route has
  the root prefix \<^verbatim>\<open>/\<close>, and the root route is the last location block of the document.
\<close>

theorem C5_plain_addresses_give_invariant:
  assumes "c \<in> set (synthesized (trace (snd (run_interruptible e args k))))"
    and "list_all conf_plain (service_url e ''api'')"
    and "list_all conf_plain (service_url e ''web'')"
  shows "ProxyConfig_invariant (route_sequence c)"
proof -
  from synthesized_content [OF assms(1)]
  have c: "c = default_conf (service_url e ''api'') (service_url e ''web'')"
    and a: "service_url e ''api'' \<noteq> []" and w: "service_url e ''web'' \<noteq> []"
    by simp_all
  from route_sequence_default_conf [OF a assms(2) w assms(3)] c show ?thesis
    by (simp add: ProxyConfig_invariant_def)
qed

theorem C5_witness:
  "default_conf ''https://api-xyz.example'' ''https://web-xyz.example''
     \<in> set (synthesized (trace (snd (run_interruptible world_ok [''deploy''] None))))
   \<and> list_all conf_plain (service_url world_ok ''api'')
   \<and> list_all conf_plain (service_url world_ok ''web'')
   \<and> ProxyConfig_invariant (route_sequence
        (default_conf ''https://api-xyz.example'' ''https://web-xyz.example''))"
proof -
  have h: "default_conf ''https://api-xyz.example'' ''https://web-xyz.example''
     \<in> set (synthesized (trace (snd (run_interruptible world_ok [''deploy''] None))))"
    by (simp add: synthesized_world_ok)
  have a: "list_all conf_plain (service_url world_ok ''api'')"
    and b: "list_all conf_plain (service_url world_ok ''web'')"
    by (simp_all add: service_url_world_ok conf_plain_def conf_space_def)
  from C5_plain_addresses_give_invariant [OF h a b] h a b show ?thesis by simp
qed

text \<open>
  Claim C5 as stated fails: the script writes whatever the platform printed into the
  \<^verbatim>\<open>proxy_pass\<close> line. With an address that closes the block and opens another one the
  run succeeds, and the configuration it generates has three location blocks, two of
  them for the root prefix.
\<close>

theorem C5_counterexample:
  "fst (run_interruptible world_injected [''deploy''] None) = 0
   \<and> default_conf ''http://x; } location / { proxy_pass http://y'' ''https://web-xyz.example''
     \<in> set (synthesized (trace (snd (run_interruptible world_injected [''deploy''] None))))
   \<and> route_sequence
        (default_conf ''http://x; } location / { proxy_pass http://y'' ''https://web-xyz.example'')
      = [''/api/'', ''/'', ''/'']
   \<and> \<not> ProxyConfig_invariant (route_sequence
        (default_conf ''http://x; } location / { proxy_pass http://y'' ''https://web-xyz.example''))"
proof -
  have "fst (run_interruptible world_injected [''deploy''] None) = 0"
    by (simp add: script_defs world_defs)
  then show ?thesis
    by (simp add: synthesized_world_injected route_sequence_injected ProxyConfig_invariant_def)
qed

text \<open>
  Claim C6. Synthesis is deterministic: the listening port and the prefixes are fixed
  in the script, and two runs that resolve the same two addresses generate the same
  text, byte for byte, whatever else differs between them (project, region, build
  directory, arguments, interrupts).
\<close>

theorem C6_synthesis_deterministic:
  assumes "c1 \<in> set (synthesized (trace (snd (run_interruptible e1 args1 k1))))"
    and "c2 \<in> set (synthesized (trace (snd (run_interruptible e2 args2 k2))))"
    and "service_url e1 ''api'' = service_url e2 ''api''"
    and "service_url e1 ''web'' = service_url e2 ''web''"
  shows "c1 = c2"
  using synthesized_content [OF assms(1)] synthesized_content [OF assms(2)] assms(3,4)
  by simp

theorem C6_witness:
  "default_conf ''https://api-xyz.example'' ''https://web-xyz.example''
     \<in> set (synthesized (trace (snd (run_interruptible world_ok [''deploy''] None))))
   \<and> default_conf ''https://api-xyz.example'' ''https://web-xyz.example''
     \<in> set (synthesized (trace (snd (run_interruptible world_other [''deploy''] None))))
   \<and> service_url world_ok ''api'' = service_url world_other ''api''
   \<and> service_url world_ok ''web'' = service_url world_other ''web''"
proof -
  have h1: "default_conf ''https://api-xyz.example'' ''https://web-xyz.example''
     \<in> set (synthesized (trace (snd (run_interruptible world_ok [''deploy''] None))))"
    by (simp add: synthesized_world_ok)
  have h2: "default_conf ''https://api-xyz.example'' ''https://web-xyz.example''
     \<in> set (synthesized (trace (snd (run_interruptible world_other [''deploy''] None))))"
    by (simp add: synthesized_world_other)
  have a: "service_url world_ok ''api'' = service_url world_other ''api''"
    and b: "service_url world_ok ''web'' = service_url world_other ''web''"
    by (simp_all add: service_url_world_ok service_url_world_other)
  from C6_synthesis_deterministic [OF h1 h2 a b] h1 h2 a b show ?thesis by simp
qed




text \<open>
  Claim C8, at the input where the script departs from it. Invoked as \<^verbatim>\<open>local\<close> with
  no project configured, the script does resolve the project identity, reports the
  configuration error and exits with code 1; \<^verbatim>\<open>docker-compose up\<close> is never started.
\<close>

theorem C8_local_mode_resolves_project:
  "fst (run world_no_project [''local'']) = 1
   \<and> trace (snd (run world_no_project [''local'']))
       = [Run [''gcloud'', ''config'', ''get-value'', ''project''], Echo no_project_error]"
  by (simp add: script_defs world_defs no_project_error_def)

text \<open>
  Claim C9. The payload posted to \<^verbatim>\<open>/api/predict\<close> has \<^verbatim>\<open>RainTomorrow\<close> equal to 0
  after every sequence of change events, whatever the state of the rain-tomorrow
  checkbox: both branches of \<^verbatim>\<open>rainTomorrow ? 0 : 0\<close> are 0.
\<close>

theorem C9_RainTomorrow_always_0: "RainTomorrow (submit_after evs) = 0"
  by (simp add: submit_after_def handleSubmit_payload_def)

text \<open>
  Claim C10, at the input where the code leaves the declared range. The user types
  \<^verbatim>\<open>.5\<close> into the rainfall spinner (a valid value of a number input), then submits:
  \<^verbatim>\<open>parseInt(".5")\<close> is NaN, NaN passes through \<^verbatim>\<open>Math.min\<close> and \<^verbatim>\<open>Math.max\<close>, and the
  payload's \<^verbatim>\<open>Rainfall\<close> is NaN, which is not in the range 0 to 371.
\<close>

theorem C10_Rainfall_NaN_at_dot5:
  "Rainfall (submit_after [RainfallChange ''.5'']) = NaN
   \<and> \<not> within 0 371 (Rainfall (submit_after [RainfallChange ''.5'']))"
  by (simp add: submit_after_def handleSubmit_payload_def initial_form_def value_or_0_def
      parseInt_dot5)


end
